theory Spec2Isabelle
  imports Complex_Main
begin

section \<open>Text primitives\<close>

text \<open>
  Python \<open>str\<close> values are modelled as \<open>string\<close>. The model covers ASCII text: case
  conversion touches the letters A-Z / a-z only, and the whitespace removed by
  \<open>str.strip()\<close> is the ASCII whitespace of \<open>str.isspace\<close> (codes 9-13, 28-32).
\<close>

definition lower_chr :: "char \<Rightarrow> char" where
  "lower_chr c =
     (case map_of (zip ''ABCDEFGHIJKLMNOPQRSTUVWXYZ'' ''abcdefghijklmnopqrstuvwxyz'') c of
        Some d \<Rightarrow> d
      | None \<Rightarrow> c)"

definition upper_chr :: "char \<Rightarrow> char" where
  "upper_chr c =
     (case map_of (zip ''abcdefghijklmnopqrstuvwxyz'' ''ABCDEFGHIJKLMNOPQRSTUVWXYZ'') c of
        Some d \<Rightarrow> d
      | None \<Rightarrow> c)"

definition lower :: "string \<Rightarrow> string" where
  "lower s = map lower_chr s"

definition upper :: "string \<Rightarrow> string" where
  "upper s = map upper_chr s"

definition isspace :: "char \<Rightarrow> bool" where
  "isspace c = (c \<in> set [CHR 0x09, CHR 0x0A, CHR 0x0B, CHR 0x0C, CHR 0x0D,
                          CHR 0x1C, CHR 0x1D, CHR 0x1E, CHR 0x1F, CHR '' ''])"

definition strip :: "string \<Rightarrow> string" where
  "strip s = rev (dropWhile isspace (rev (dropWhile isspace s)))"

definition startswith :: "string \<Rightarrow> string \<Rightarrow> bool" where
  "startswith s p = (take (length p) s = p)"

text \<open>\<open>py_in sub s\<close> is Python's \<open>sub in s\<close> on strings: \<open>sub\<close> occurs contiguously in \<open>s\<close>.\<close>

fun py_in :: "string \<Rightarrow> string \<Rightarrow> bool" where
  "py_in sub [] = (sub = [])"
| "py_in sub (c # cs) = (startswith (c # cs) sub \<or> py_in sub cs)"

text \<open>Decimal rendering of a non-negative index, as \<open>str(i)\<close> / \<open>f"{i}"\<close> gives it.\<close>

definition digit_chr :: "nat \<Rightarrow> char" where
  "digit_chr d = ''0123456789'' ! d"

fun str_nat :: "nat \<Rightarrow> string" where
  "str_nat n = (if n < 10 then [digit_chr n] else str_nat (n div 10) @ [digit_chr (n mod 10)])"

declare str_nat.simps [simp del]

section \<open>Data model\<close>

text \<open>
  A raw cell of the grid: null, boolean, integer, float or text. Floats are idealised as
  reals (finite values, exact arithmetic); NaN and the infinities are outside the model.
\<close>

datatype cell = CNone | CBool bool | CInt int | CFloat real | CStr string

text \<open>Python truthiness of a cell (\<open>if cell\<close>, \<open>any(...)\<close>).\<close>

fun truthy :: "cell \<Rightarrow> bool" where
  "truthy CNone = False"
| "truthy (CBool b) = b"
| "truthy (CInt i) = (i \<noteq> 0)"
| "truthy (CFloat x) = (x \<noteq> 0)"
| "truthy (CStr s) = (s \<noteq> [])"

record MappingResult =
  header :: string
  param_name :: "string option"
  asset_name :: "string option"
  confidence :: string
  reason :: string

record ParsedCell =
  pc_row :: nat
  pc_col :: nat
  pc_param_name :: string
  pc_asset_name :: "string option"
  pc_raw_value :: cell
  pc_parsed_value :: "real option"
  pc_confidence :: string
  pc_notes :: string

record UnmappedColumn =
  uc_col :: nat
  uc_header :: string
  uc_reason :: string

section \<open>Header-row detection (\<open>ExcelParsingAgent.detect_header_row\<close>)\<close>

text \<open>
  The generator condition
  \<open>cell and isinstance(cell, str) and len(str(cell).strip()) > 2\<close>.
\<close>

fun header_like :: "cell \<Rightarrow> bool" where
  "header_like (CStr s) = (s \<noteq> [] \<and> length (strip s) > 2)"
| "header_like _ = False"

definition string_count :: "cell list \<Rightarrow> nat" where
  "string_count r = length (filter header_like r)"

definition row_qualifies :: "cell list \<Rightarrow> bool" where
  "row_qualifies r = (real (string_count r) \<ge> real (length r) * 0.6)"

definition detect_header_row :: "cell list list \<Rightarrow> int \<Rightarrow> nat" where
  "detect_header_row excel_data max_rows_to_check =
     (case List.find (\<lambda>row_idx. row_qualifies (excel_data ! row_idx))
             [0 ..< nat (min max_rows_to_check (int (length excel_data)))] of
        Some row_idx \<Rightarrow> row_idx
      | None \<Rightarrow> 0)"

section \<open>Non-parameter classification (\<open>ExcelParsingAgent._is_non_parameter\<close>)\<close>

definition non_terms :: "string list" where
  "non_terms = [''date'', ''time'', ''timestamp'', ''day'', ''month'', ''year'', ''id'',
                ''comment'', ''notes'', ''remarks'', ''description'']"

definition non_parameter_reason :: "string \<Rightarrow> string" where
  "non_parameter_reason term = ''Non-parameter column detected: '' @ [CHR 0x27] @ term @ [CHR 0x27]"

definition is_non_parameter :: "string option \<Rightarrow> bool \<times> string option" where
  "is_non_parameter hdr =
     (case hdr of
        None \<Rightarrow> (True, Some ''Empty header'')
      | Some hd_text \<Rightarrow>
          if hd_text = [] then (True, Some ''Empty header'')
          else
            (let h = lower hd_text in
             case List.find (\<lambda>term. py_in term h) non_terms of
               Some term \<Rightarrow> (True, Some (non_parameter_reason term))
             | None \<Rightarrow>
                 if startswith h ''column_'' \<or> startswith (lower (strip h)) ''unnamed''
                 then (True, Some ''Unnamed or generic column'')
                 else (False, None)))"

section \<open>String similarity (\<open>ExcelParsingAgent._string_similarity\<close>)\<close>

definition string_similarity :: "string \<Rightarrow> string \<Rightarrow> real" where
  "string_similarity s1 s2 =
     (if s1 = s2 then 1.0
      else if s1 = [] \<or> s2 = [] then 0.0
      else if py_in s1 s2 \<or> py_in s2 s1 then 0.9
      else
        (let longer = (if length s1 > length s2 then s1 else s2);
             shorter = (if length s1 > length s2 then s2 else s1);
             match_count = length (filter (\<lambda>c. c \<in> set longer) shorter)
         in real match_count / real (length longer)))"

section \<open>Library functions the code calls\<close>

text \<open>
  The code calls a few functions of Python and its libraries whose text conversions are
  not part of this repository. They are parameters of the model: every general result
  below holds for any choice of them.
  \<^item> \<open>float_of_str s\<close>: \<open>float(s)\<close> on a string, \<open>None\<close> when it raises ValueError;
  \<^item> \<open>re_search_number s\<close>: \<open>re.search(r'[-+]?\d*\.?\d+', s)\<close>, the matched text if any;
  \<^item> \<open>repr_float x\<close>: the text of a float in \<open>str(x)\<close> and \<open>f"{x}"\<close>;
  \<^item> \<open>format_2f x\<close>: the text of \<open>f"{x:.2f}"\<close>;
  \<^item> \<open>json_loads s\<close>: \<open>json.loads(s)\<close>, \<open>None\<close> when it raises JSONDecodeError.
\<close>

datatype json = JNull | JBool bool | JNum real | JStr string | JArr "json list"
  | JObj "(string \<times> json) list"

record py_lib =
  float_of_str :: "string \<Rightarrow> real option"
  re_search_number :: "string \<Rightarrow> string option"
  repr_float :: "real \<Rightarrow> string"
  format_2f :: "real \<Rightarrow> string"
  json_loads :: "string \<Rightarrow> json option"

text \<open>
  A concrete choice used where a closed instance is evaluated: no text parses as a
  number or as JSON, and floats print as a fixed placeholder. The instances below do not
  depend on this choice.
\<close>

definition plain_lib :: py_lib where
  "plain_lib = \<lparr> float_of_str = (\<lambda>s. None), re_search_number = (\<lambda>s. None),
                 repr_float = (\<lambda>x. ''<float>''), format_2f = (\<lambda>x. ''<score>''),
                 json_loads = (\<lambda>s. None) \<rparr>"

section \<open>Value parsing (\<open>value_parser.parse_value\<close>)\<close>

definition NUMERIC_PARAMS :: "string list" where
  "NUMERIC_PARAMS = [''coal_consumption'', ''steam_generation'', ''power_generation'', ''efficiency'']"

text \<open>The test \<open>param_name and sub in param_name.lower()\<close>.\<close>

definition param_has :: "string option \<Rightarrow> string \<Rightarrow> bool" where
  "param_has pn sub = (case pn of None \<Rightarrow> False | Some p \<Rightarrow> p \<noteq> [] \<and> py_in sub (lower p))"

text \<open>The test \<open>param_name and any(p in param_name.lower() for p in NUMERIC_PARAMS)\<close>.\<close>

definition numeric_expected :: "string option \<Rightarrow> bool" where
  "numeric_expected pn = list_ex (\<lambda>p. param_has pn p) NUMERIC_PARAMS"

text \<open>The branch \<open>isinstance(raw_value, (int, float))\<close>, on \<open>value = float(raw_value)\<close>.\<close>

definition parse_number :: "real \<Rightarrow> string option \<Rightarrow> real option \<times> string" where
  "parse_number v pn =
     (if param_has pn ''efficiency'' \<and> v > 1 \<and> v \<le> 100
      then (Some (v / 100), ''numeric_direct_inferred_percentage'')
      else (Some v, ''numeric_direct''))"

text \<open>The rest of the function, on a string cell that is not a null marker.\<close>

definition parse_text :: "py_lib \<Rightarrow> string \<Rightarrow> string option \<Rightarrow> real option \<times> string" where
  "parse_text L s pn =
     (let value_str = upper (strip s) in
      if value_str \<in> set [''YES'', ''TRUE'', ''Y'', ''1''] then
        (if numeric_expected pn then (None, ''unexpected_boolean'') else (Some 1, ''boolean_true''))
      else if value_str \<in> set [''NO'', ''FALSE'', ''N'', ''0''] then
        (if numeric_expected pn then (None, ''unexpected_boolean'') else (Some 0, ''boolean_false''))
      else
        (case (if CHR ''%'' \<in> set value_str
               then float_of_str L (strip (filter (\<lambda>c. c \<noteq> CHR ''%'') value_str)) else None) of
           Some v \<Rightarrow> (Some (v / 100), ''percentage'')
         | None \<Rightarrow>
        (case (if CHR '','' \<in> set value_str
               then float_of_str L (strip (filter (\<lambda>c. c \<noteq> CHR '','') value_str)) else None) of
           Some v \<Rightarrow> (Some v, ''numeric_with_commas'')
         | None \<Rightarrow>
        (case float_of_str L value_str of
           Some v \<Rightarrow>
             (if param_has pn ''efficiency'' \<and> v > 1 \<and> v \<le> 100
              then (Some (v / 100), ''numeric_string_inferred_percentage'')
              else (Some v, ''numeric_direct_string''))
         | None \<Rightarrow>
        (case re_search_number L value_str of
           Some m \<Rightarrow>
             (case float_of_str L m of
                Some v \<Rightarrow> (Some v, ''extracted_number'')
              | None \<Rightarrow> (None, ''unparseable''))
         | None \<Rightarrow> (None, ''unparseable''))))))"

fun parse_value :: "py_lib \<Rightarrow> cell \<Rightarrow> string option \<Rightarrow> real option \<times> string" where
  "parse_value L CNone pn = (None, ''null_value'')"
| "parse_value L (CBool b) pn = parse_number (if b then 1 else 0) pn"
| "parse_value L (CInt i) pn = parse_number (of_int i) pn"
| "parse_value L (CFloat x) pn = parse_number x pn"
| "parse_value L (CStr s) pn =
     (if s = [] \<or> s = ''N/A'' \<or> s = ''NA'' then (None, ''null_value'') else parse_text L s pn)"

section \<open>Validation (\<open>value_parser.validate_value\<close>)\<close>

definition efficiency_exceeds_msg :: "py_lib \<Rightarrow> real \<Rightarrow> string" where
  "efficiency_exceeds_msg L v = ''Efficiency value '' @ repr_float L v @ '' exceeds 100%''"

definition efficiency_verify_msg :: "py_lib \<Rightarrow> real \<Rightarrow> string" where
  "efficiency_verify_msg L v =
     ''Efficiency '' @ repr_float L v @ '' - verify if this is decimal or percentage''"

definition coal_negative_msg :: "py_lib \<Rightarrow> real \<Rightarrow> string" where
  "coal_negative_msg L v = ''Coal consumption cannot be negative: '' @ repr_float L v"

definition power_negative_msg :: "py_lib \<Rightarrow> real \<Rightarrow> string" where
  "power_negative_msg L v = ''Power generation cannot be negative: '' @ repr_float L v"

definition hours_range_msg :: "py_lib \<Rightarrow> real \<Rightarrow> string" where
  "hours_range_msg L v = ''Operating hours '' @ repr_float L v @ '' outside expected range (0-24)''"

text \<open>
  Each \<open>if\<close> block of the source returns from inside when its check fires and falls
  through to the next block otherwise.
\<close>

definition validate_value :: "py_lib \<Rightarrow> real option \<Rightarrow> string option \<Rightarrow> bool \<times> string option" where
  "validate_value L pv pn =
     (case pv of
        None \<Rightarrow> (True, None)
      | Some v \<Rightarrow>
          if param_has pn ''efficiency'' \<and> (v < 0 \<or> v > 1) then
            (if v > 100 then (False, Some (efficiency_exceeds_msg L v))
             else (True, Some (efficiency_verify_msg L v)))
          else if param_has pn ''coal'' \<and> v < 0 then (False, Some (coal_negative_msg L v))
          else if param_has pn ''power'' \<and> v < 0 then (False, Some (power_negative_msg L v))
          else if param_has pn ''hour'' \<and> (v < 0 \<or> v > 24) then (False, Some (hours_range_msg L v))
          else (True, None))"

subsection \<open>The validator, rule by rule\<close>

text \<open>
  The outcome of each of the four rules taken alone, and the rules in scan order with
  the substring that selects them.
\<close>

definition efficiency_rule :: "py_lib \<Rightarrow> real \<Rightarrow> bool \<times> string option" where
  "efficiency_rule L v =
     (if v < 0 \<or> v > 1
      then (if v > 100 then (False, Some (efficiency_exceeds_msg L v))
            else (True, Some (efficiency_verify_msg L v)))
      else (True, None))"

definition coal_rule :: "py_lib \<Rightarrow> real \<Rightarrow> bool \<times> string option" where
  "coal_rule L v = (if v < 0 then (False, Some (coal_negative_msg L v)) else (True, None))"

definition power_rule :: "py_lib \<Rightarrow> real \<Rightarrow> bool \<times> string option" where
  "power_rule L v = (if v < 0 then (False, Some (power_negative_msg L v)) else (True, None))"

definition hour_rule :: "py_lib \<Rightarrow> real \<Rightarrow> bool \<times> string option" where
  "hour_rule L v = (if v < 0 \<or> v > 24 then (False, Some (hours_range_msg L v)) else (True, None))"

definition validation_rules :: "py_lib \<Rightarrow> (string \<times> (real \<Rightarrow> bool \<times> string option)) list" where
  "validation_rules L =
     [(''efficiency'', efficiency_rule L), (''coal'', coal_rule L),
      (''power'', power_rule L), (''hour'', hour_rule L)]"

definition matching_rules :: "py_lib \<Rightarrow> string option \<Rightarrow> (real \<Rightarrow> bool \<times> string option) list" where
  "matching_rules L pn = map snd (filter (\<lambda>r. param_has pn (fst r)) (validation_rules L))"

text \<open>
  The specification's reading: among the rules whose substring occurs in the parameter
  identity, the outcome of the last one in scan order is the result.
\<close>

definition validate_value_last_wins :: "py_lib \<Rightarrow> real option \<Rightarrow> string option \<Rightarrow> bool \<times> string option" where
  "validate_value_last_wins L pv pn =
     (case pv of
        None \<Rightarrow> (True, None)
      | Some v \<Rightarrow>
          (case rev (matching_rules L pn) of
             [] \<Rightarrow> (True, None)
           | rule # _ \<Rightarrow> rule v))"

text \<open>The first outcome in a list that is not the clean pass \<open>(True, None)\<close>.\<close>

definition first_objection :: "(bool \<times> string option) list \<Rightarrow> bool \<times> string option" where
  "first_objection outcomes =
     (case filter (\<lambda>out. out \<noteq> (True, None)) outcomes of
        [] \<Rightarrow> (True, None)
      | out # _ \<Rightarrow> out)"

section \<open>Registries (\<open>registries.py\<close>)\<close>

text \<open>The registry entries, with the fields the mapping code reads.\<close>

record Parameter =
  p_name :: string
  p_unit :: string
  p_aliases :: "string list"

record Asset =
  a_name :: string
  a_aliases :: "string list"

definition mk_param :: "string \<Rightarrow> string \<Rightarrow> string list \<Rightarrow> Parameter" where
  "mk_param n u als = \<lparr> p_name = n, p_unit = u, p_aliases = als \<rparr>"

definition mk_asset :: "string \<Rightarrow> string list \<Rightarrow> Asset" where
  "mk_asset n als = \<lparr> a_name = n, a_aliases = als \<rparr>"

definition PARAMETER_REGISTRY :: "Parameter list" where
  "PARAMETER_REGISTRY =
    [mk_param ''coal_consumption'' ''MT''
       [''Coal Consumption'', ''Coal Used'', ''Coal (MT)'', ''Daily Coal'', ''Coal Used (MT)'', ''COAL CONSMPTN''],
     mk_param ''coal_gcv'' ''kcal/kg''
       [''Coal GCV'', ''Coal Gross Calorific Value'', ''GCV'', ''COALCV''],
     mk_param ''steam_generation'' ''T/hr''
       [''Steam'', ''Steam Generated'', ''Steam Generation'', ''Steam (Boiler)'', ''Steam Output'', ''STEAM GEN''],
     mk_param ''steam_consumption'' ''T/hr''
       [''Steam Consumption'', ''Steam Used'', ''Steam Input''],
     mk_param ''power_generation'' ''MWh''
       [''Power'', ''Power Generated'', ''Power Output'', ''Power (MW)'', ''Power Generation'', ''Power TG'', ''POWER GEN''],
     mk_param ''power_consumption'' ''MWh''
       [''Power Consumption'', ''Power Used'', ''Auxiliary Power Load''],
     mk_param ''power_export'' ''MWh''
       [''Power Export'', ''Power Exported'', ''Grid Export''],
     mk_param ''water_consumption'' ''KL''
       [''Water'', ''Water Consumption'', ''Water Used'', ''Water (KL)''],
     mk_param ''co2_emissions'' ''tCO2e''
       [''CO2 Emissions'', ''CO2'', ''Carbon Dioxide''],
     mk_param ''so2_emissions'' ''kg''
       [''SO2 Emissions'', ''SO2'', ''Sulfur Dioxide''],
     mk_param ''nox_emissions'' ''kg''
       [''NOx Emissions'', ''NOx'', ''Nitrogen Oxides''],
     mk_param ''fly_ash_generated'' ''MT''
       [''Fly Ash'', ''Fly Ash Generated'', ''Ash Output''],
     mk_param ''efficiency'' ''%''
       [''Efficiency'', ''Plant Efficiency'', ''Overall Efficiency'', ''EFF %'', ''Boiler Efficiency''],
     mk_param ''specific_coal_consumption'' ''kg/kWh''
       [''Specific Coal Consumption'', ''SCC'', ''Coal Per Unit''],
     mk_param ''heat_rate'' ''kcal/kWh''
       [''Heat Rate'', ''Heat Input Rate'', ''HR''],
     mk_param ''plant_load_factor'' ''%''
       [''Plant Load Factor'', ''PLF'', ''Capacity Factor''],
     mk_param ''lignite_consumption'' ''MT''
       [''Lignite'', ''Lignite Consumption'', ''Brown Coal''],
     mk_param ''biomass_consumption'' ''MT''
       [''Biomass'', ''Biomass Consumption'', ''Bio-fuel''],
     mk_param ''production_output'' ''MT''
       [''Production'', ''Output'', ''Production Output''],
     mk_param ''operating_hours'' ''hrs''
       [''Operating Hours'', ''Runtime'', ''Hours'', ''HOURS'', ''Uptime'']]"

definition ASSET_REGISTRY :: "Asset list" where
  "ASSET_REGISTRY =
    [mk_asset ''AFBC-1'' [''AFBC-1'', ''Boiler 1'', ''AFBC 1'', ''AFB1''],
     mk_asset ''AFBC-2'' [''AFBC-2'', ''Boiler 2'', ''AFBC 2'', ''AFB2''],
     mk_asset ''TG-1'' [''TG-1'', ''TG1'', ''Turbine 1'', ''Generator 1''],
     mk_asset ''TG-2'' [''TG-2'', ''TG2'', ''Turbine 2'', ''Generator 2''],
     mk_asset ''VSF'' [''VSF'', ''Viscose Staple Fiber'', ''Fiber''],
     mk_asset ''KILN-1'' [''KILN-1'', ''Kiln 1'', ''Rotary Kiln 1'', ''RK1'']]"

section \<open>The mapping agent (\<open>ExcelParsingAgent\<close>)\<close>

record agent =
  api_key :: "string option"
  param_registry :: "Parameter list"
  asset_registry :: "Asset list"

definition llm_available :: "agent \<Rightarrow> bool" where
  "llm_available ag = (api_key ag \<noteq> None)"

text \<open>The agent built by \<open>ExcelParsingAgent()\<close> when no API key is in the environment.\<close>

definition default_agent :: agent where
  "default_agent = \<lparr> api_key = None, param_registry = PARAMETER_REGISTRY,
                      asset_registry = ASSET_REGISTRY \<rparr>"

subsection \<open>Asset inference (\<open>_infer_asset_from_text\<close>)\<close>

definition boiler_patterns :: "(string \<times> string) list" where
  "boiler_patterns =
    [(''boiler 1'', ''AFBC-1''), (''boiler1'', ''AFBC-1''), (''boiler-1'', ''AFBC-1''), (''afbc-1'', ''AFBC-1''),
     (''boiler 2'', ''AFBC-2''), (''boiler2'', ''AFBC-2''), (''boiler-2'', ''AFBC-2''), (''afbc-2'', ''AFBC-2'')]"

definition turbine_patterns :: "(string \<times> string) list" where
  "turbine_patterns =
    [(''tg-1'', ''TG-1''), (''tg1'', ''TG-1''), (''turbine 1'', ''TG-1''), (''turbine1'', ''TG-1''),
     (''turbine-1'', ''TG-1''), (''generator 1'', ''TG-1''),
     (''tg-2'', ''TG-2''), (''tg2'', ''TG-2''), (''turbine 2'', ''TG-2''), (''turbine2'', ''TG-2''),
     (''turbine-2'', ''TG-2''), (''generator 2'', ''TG-2'')]"

definition infer_asset_from_text :: "string \<Rightarrow> string option \<times> bool" where
  "infer_asset_from_text txt =
     (case List.find (\<lambda>(pattern, asset_id). py_in pattern txt) (boiler_patterns @ turbine_patterns) of
        Some (pattern, asset_id) \<Rightarrow> (Some asset_id, True)
      | None \<Rightarrow> (None, False))"

subsection \<open>Fuzzy matching (\<open>_fuzzy_match_header\<close>)\<close>

text \<open>One step of the nested loop over parameters and their aliases.\<close>

definition match_step :: "string \<Rightarrow> string option \<times> real \<Rightarrow> string \<times> string \<Rightarrow> string option \<times> real" where
  "match_step header_lower best pa =
     (let score = string_similarity header_lower (lower (snd pa)) in
      if score > snd best then (Some (fst pa), score) else best)"

definition best_param_match :: "Parameter list \<Rightarrow> string \<Rightarrow> string option \<times> real" where
  "best_param_match reg header_lower =
     foldl (match_step header_lower) (None, 0)
       (concat (map (\<lambda>p. map (\<lambda>alias. (p_name p, alias)) (p_aliases p)) reg))"

text \<open>
  The loop over assets: the \<open>break\<close> leaves the alias loop only, so a later asset with a
  matching alias replaces an earlier one.
\<close>

definition direct_asset_match :: "Asset list \<Rightarrow> string \<Rightarrow> string option" where
  "direct_asset_match reg header_lower =
     foldl (\<lambda>best_asset a.
              if list_ex (\<lambda>alias. py_in (lower alias) header_lower) (a_aliases a)
              then Some (a_name a) else best_asset)
       None reg"

definition fuzzy_match_header :: "py_lib \<Rightarrow> agent \<Rightarrow> string \<Rightarrow> MappingResult" where
  "fuzzy_match_header L ag hdr =
     (let header_lower = strip (lower hdr);
          (best_match, best_match_score) = best_param_match (param_registry ag) header_lower;
          direct = direct_asset_match (asset_registry ag) header_lower;
          (best_asset, asset_inferred) =
             (if direct = None \<or> direct = Some [] then infer_asset_from_text header_lower
              else (direct, False));
          conf0 = (if best_match_score > 0.85 then ''high''
                   else if best_match_score > 0.6 then ''medium'' else ''low'');
          conf = (if asset_inferred \<and> best_asset \<noteq> None \<and> best_asset \<noteq> Some [] \<and> conf0 = ''high''
                  then ''medium'' else conf0);
          rsn = ''Fuzzy matched with score '' @ format_2f L best_match_score
                @ (if asset_inferred then ''; asset inferred from boiler/turbine mapping'' else [])
      in \<lparr> header = hdr, param_name = best_match, asset_name = best_asset,
           confidence = conf, reason = rsn \<rparr>)"

subsection \<open>Mapping through the oracle (\<open>_map_header_with_llm\<close>)\<close>

text \<open>
  What one call of the external service produced: the client or the request raised, or a
  response came back whose \<open>text\<close> is a string or \<open>None\<close>.
\<close>

datatype oracle_outcome = OracleRaised | OracleResponse "string option"

datatype py_exception = ServiceError | AttributeError | JSONDecodeError | ValidationError

text \<open>
  Validation of the \<open>MappingResult\<close> fields (pydantic, on values decoded from JSON): an
  \<open>Optional[str]\<close> field takes a string or null, a \<open>str\<close> field a string only.
\<close>

fun optional_str_field :: "json option \<Rightarrow> py_exception + string option" where
  "optional_str_field None = Inr None"
| "optional_str_field (Some JNull) = Inr None"
| "optional_str_field (Some (JStr s)) = Inr (Some s)"
| "optional_str_field (Some _) = Inl ValidationError"

fun str_field :: "json option \<Rightarrow> string \<Rightarrow> py_exception + string" where
  "str_field None dflt = Inr dflt"
| "str_field (Some (JStr s)) dflt = Inr s"
| "str_field (Some _) dflt = Inl ValidationError"

text \<open>The body of the \<open>try\<close> block: its result or the exception it raises.\<close>

definition build_mapping :: "string \<Rightarrow> (string \<times> json) list \<Rightarrow> py_exception + MappingResult" where
  "build_mapping hdr mapping_json =
     (case optional_str_field (map_of mapping_json ''param_name'') of
        Inl e \<Rightarrow> Inl e
      | Inr pn \<Rightarrow>
     (case optional_str_field (map_of mapping_json ''asset_name'') of
        Inl e \<Rightarrow> Inl e
      | Inr an \<Rightarrow>
     (case str_field (map_of mapping_json ''confidence'') ''medium'' of
        Inl e \<Rightarrow> Inl e
      | Inr cf \<Rightarrow>
     (case str_field (map_of mapping_json ''reason'') ''LLM mapping'' of
        Inl e \<Rightarrow> Inl e
      | Inr rs \<Rightarrow>
          Inr \<lparr> header = hdr, param_name = pn, asset_name = an, confidence = cf, reason = rs \<rparr>))))"

definition llm_try :: "py_lib \<Rightarrow> oracle_outcome \<Rightarrow> string \<Rightarrow> py_exception + MappingResult" where
  "llm_try L outcome hdr =
     (case outcome of
        OracleRaised \<Rightarrow> Inl ServiceError
      | OracleResponse None \<Rightarrow> Inl AttributeError
      | OracleResponse (Some txt) \<Rightarrow>
          (case json_loads L (strip txt) of
             None \<Rightarrow> Inl JSONDecodeError
           | Some (JObj mapping_json) \<Rightarrow> build_mapping hdr mapping_json
           | Some _ \<Rightarrow> Inl AttributeError))"

definition map_header_with_llm :: "py_lib \<Rightarrow> agent \<Rightarrow> oracle_outcome \<Rightarrow> string \<Rightarrow> MappingResult" where
  "map_header_with_llm L ag outcome hdr =
     (case llm_try L outcome hdr of
        Inr m \<Rightarrow> m
      | Inl JSONDecodeError \<Rightarrow> fuzzy_match_header L ag hdr
      | Inl _ \<Rightarrow> fuzzy_match_header L ag hdr)"

text \<open>
  When the outcome of a call counts as a well-formed mapping: a response whose text
  decodes to a JSON object in which \<open>param_name\<close> and \<open>asset_name\<close> are absent, null
  or strings, and \<open>confidence\<close> and \<open>reason\<close> are absent or strings.
\<close>

fun absent_null_or_string :: "json option \<Rightarrow> bool" where
  "absent_null_or_string None = True"
| "absent_null_or_string (Some JNull) = True"
| "absent_null_or_string (Some (JStr s)) = True"
| "absent_null_or_string (Some _) = False"

fun absent_or_string :: "json option \<Rightarrow> bool" where
  "absent_or_string None = True"
| "absent_or_string (Some (JStr s)) = True"
| "absent_or_string (Some _) = False"

fun well_formed_mapping :: "json \<Rightarrow> bool" where
  "well_formed_mapping (JObj kv) =
     (absent_null_or_string (map_of kv ''param_name'')
      \<and> absent_null_or_string (map_of kv ''asset_name'')
      \<and> absent_or_string (map_of kv ''confidence'')
      \<and> absent_or_string (map_of kv ''reason''))"
| "well_formed_mapping _ = False"

fun oracle_succeeded :: "py_lib \<Rightarrow> oracle_outcome \<Rightarrow> bool" where
  "oracle_succeeded L OracleRaised = False"
| "oracle_succeeded L (OracleResponse None) = False"
| "oracle_succeeded L (OracleResponse (Some txt)) =
     (case json_loads L (strip txt) of None \<Rightarrow> False | Some j \<Rightarrow> well_formed_mapping j)"

subsection \<open>Mapping all headers (\<open>map_headers\<close>)\<close>

text \<open>
  \<open>oracle col_idx\<close> is the outcome of the service call issued for column \<open>col_idx\<close>. The
  result dictionary has the keys \<open>0 .. len(headers) - 1\<close> in order; it is the list of its
  values.
\<close>

definition map_one_header :: "py_lib \<Rightarrow> agent \<Rightarrow> (nat \<Rightarrow> oracle_outcome) \<Rightarrow> nat \<Rightarrow> string \<Rightarrow> MappingResult" where
  "map_one_header L ag oracle col_idx hdr =
     (let (non_param, rsn) = is_non_parameter (Some hdr) in
      if non_param then
        \<lparr> header = hdr, param_name = None, asset_name = None, confidence = ''low'',
          reason = (case rsn of Some r \<Rightarrow> r | None \<Rightarrow> []) \<rparr>
      else if \<not> llm_available ag then fuzzy_match_header L ag hdr
      else map_header_with_llm L ag (oracle col_idx) hdr)"

definition map_headers :: "py_lib \<Rightarrow> agent \<Rightarrow> (nat \<Rightarrow> oracle_outcome) \<Rightarrow> string list \<Rightarrow> MappingResult list" where
  "map_headers L ag oracle headers =
     map (\<lambda>(col_idx, hdr). map_one_header L ag oracle col_idx hdr) (enumerate 0 headers)"

section \<open>Parsing the grid (\<open>ExcelParser.parse_file\<close>)\<close>

subsection \<open>Confidence of a cell\<close>

text \<open>
  The four assignments to \<open>final_confidence\<close>, in the order of the source; \<open>c1\<close> to \<open>c4\<close>
  are the values of the variable after each \<open>if\<close>.
\<close>

definition final_confidence :: "string \<Rightarrow> real option \<Rightarrow> string \<Rightarrow> bool \<Rightarrow> string" where
  "final_confidence mapping_confidence pv parse_method is_valid =
     (let c0 = mapping_confidence;
          c1 = (if parse_method = ''extracted_number'' \<and> c0 = ''high'' then ''medium'' else c0);
          c2 = (if parse_method = ''unexpected_boolean'' then ''low'' else c1);
          c3 = (if pv = None \<and> parse_method \<in> set [''null_value'', ''unparseable'']
                then ''medium'' else c2);
          c4 = (if \<not> is_valid then ''low'' else c3)
      in c4)"

text \<open>The order of the three confidence levels, \<open>low < medium < high\<close>.\<close>

definition confidence_rank :: "string \<Rightarrow> nat" where
  "confidence_rank c = (if c = ''high'' then 2 else if c = ''medium'' then 1 else 0)"

definition str_bool :: "bool \<Rightarrow> string" where
  "str_bool b = (if b then ''True'' else ''False'')"

text \<open>The cell built for one value of a mapped column, and the warning it may add.\<close>

definition validation_warning_text :: "nat \<Rightarrow> nat \<Rightarrow> string \<Rightarrow> string" where
  "validation_warning_text row_idx col_idx w =
     ''Row '' @ str_nat row_idx @ '', Col '' @ str_nat col_idx @ '': '' @ w"

definition parse_cell :: "py_lib \<Rightarrow> nat \<Rightarrow> nat \<Rightarrow> MappingResult \<Rightarrow> string \<Rightarrow> cell \<Rightarrow> ParsedCell \<times> string list" where
  "parse_cell L row_idx col_idx mapping pn cell_value =
     (let (pv, parse_method) = parse_value L cell_value (Some pn);
          (is_valid, validation_warning) = validate_value L pv (Some pn);
          parsed_cell = \<lparr> pc_row = row_idx, pc_col = col_idx, pc_param_name = pn,
                          pc_asset_name = asset_name mapping, pc_raw_value = cell_value,
                          pc_parsed_value = pv,
                          pc_confidence = final_confidence (confidence mapping) pv parse_method is_valid,
                          pc_notes = ''Parse method: '' @ parse_method @ '', Valid: '' @ str_bool is_valid \<rparr>
      in (parsed_cell,
          (case validation_warning of
             None \<Rightarrow> []
           | Some w \<Rightarrow> if w = [] then [] else [validation_warning_text row_idx col_idx w])))"

subsection \<open>Rows\<close>

text \<open>
  The loop over \<open>enumerate(row)\<close>, from column \<open>col_idx\<close> on: the cells and warnings it
  appends. \<open>header_mappings\<close> has one entry per header, so the lookup at a column below
  \<open>len(headers)\<close> is defined.
\<close>

fun process_cells :: "py_lib \<Rightarrow> string list \<Rightarrow> MappingResult list \<Rightarrow> nat \<Rightarrow> nat \<Rightarrow> cell list
    \<Rightarrow> ParsedCell list \<times> string list" where
  "process_cells L headers header_mappings row_idx col_idx [] = ([], [])"
| "process_cells L headers header_mappings row_idx col_idx (cell_value # rest) =
     (if col_idx \<ge> length headers then ([], [])
      else
        (let mapping = header_mappings ! col_idx in
         case param_name mapping of
           None \<Rightarrow> process_cells L headers header_mappings row_idx (Suc col_idx) rest
         | Some pn \<Rightarrow>
             (let (parsed_cell, ws) = parse_cell L row_idx col_idx mapping pn cell_value;
                  (cells, warns) = process_cells L headers header_mappings row_idx (Suc col_idx) rest
              in (parsed_cell # cells, ws @ warns))))"

definition row_skipped_warning :: "nat \<Rightarrow> string" where
  "row_skipped_warning row_idx = ''Row '' @ str_nat row_idx @ '' is empty, skipped''"

text \<open>The body of the loop over data rows: \<open>not any(cell for cell in row)\<close> skips the row.\<close>

definition process_row :: "py_lib \<Rightarrow> string list \<Rightarrow> MappingResult list \<Rightarrow> nat \<Rightarrow> cell list
    \<Rightarrow> ParsedCell list \<times> string list" where
  "process_row L headers header_mappings row_idx r =
     (if \<not> list_ex truthy r then ([], [row_skipped_warning row_idx])
      else process_cells L headers header_mappings row_idx 0 r)"

definition process_rows :: "py_lib \<Rightarrow> string list \<Rightarrow> MappingResult list \<Rightarrow> cell list list \<Rightarrow> nat
    \<Rightarrow> ParsedCell list \<times> string list" where
  "process_rows L headers header_mappings raw_data header_row_idx =
     (let outs = map (\<lambda>row_idx. process_row L headers header_mappings row_idx (raw_data ! row_idx))
                   [header_row_idx + 1 ..< length raw_data]
      in (concat (map fst outs), concat (map snd outs)))"

subsection \<open>Duplicate columns\<close>

type_synonym dup_key = "string \<times> string option"

text \<open>\<open>duplicates.setdefault(key, []).append(col_idx)\<close> on a dictionary in insertion order.\<close>

fun setdefault_append :: "(dup_key \<times> nat list) list \<Rightarrow> dup_key \<Rightarrow> nat \<Rightarrow> (dup_key \<times> nat list) list" where
  "setdefault_append [] k c = [(k, [c])]"
| "setdefault_append ((k', cs) # d) k c =
     (if k' = k then (k', cs @ [c]) # d else (k', cs) # setdefault_append d k c)"

fun collect_duplicates :: "(dup_key \<times> nat list) list \<Rightarrow> (nat \<times> MappingResult) list
    \<Rightarrow> (dup_key \<times> nat list) list" where
  "collect_duplicates d [] = d"
| "collect_duplicates d ((col_idx, mapping) # rest) =
     (case param_name mapping of
        None \<Rightarrow> collect_duplicates d rest
      | Some pn \<Rightarrow> collect_duplicates (setdefault_append d (pn, asset_name mapping) col_idx) rest)"

definition duplicates :: "MappingResult list \<Rightarrow> (dup_key \<times> nat list) list" where
  "duplicates header_mappings = collect_duplicates [] (enumerate 0 header_mappings)"

definition str_opt :: "string option \<Rightarrow> string" where
  "str_opt a = (case a of None \<Rightarrow> ''None'' | Some t \<Rightarrow> t)"

definition duplication_warning :: "dup_key \<Rightarrow> nat \<Rightarrow> nat \<Rightarrow> string" where
  "duplication_warning k c0 c1 =
     ''Column duplication: '' @ fst k @ '' ('' @ str_opt (snd k) @ '') appears in columns ''
       @ str_nat c0 @ '' and '' @ str_nat c1"

definition duplicate_warnings :: "MappingResult list \<Rightarrow> string list" where
  "duplicate_warnings header_mappings =
     map (\<lambda>(k, cols). duplication_warning k (cols ! 0) (cols ! 1))
       (filter (\<lambda>(k, cols). length cols > 1) (duplicates header_mappings))"

text \<open>
  The \<open>(parameter, asset)\<close> key of a mapped column, and the columns of a key in
  ascending order.
\<close>

definition mapping_key :: "MappingResult \<Rightarrow> dup_key option" where
  "mapping_key mapping = (case param_name mapping of None \<Rightarrow> None | Some pn \<Rightarrow> Some (pn, asset_name mapping))"


text \<open>The columns of a key among indexed mappings, in the order of the list.\<close>

definition cols_of :: "(nat \<times> MappingResult) list \<Rightarrow> dup_key \<Rightarrow> nat list" where
  "cols_of xs k = map fst (filter (\<lambda>cm. mapping_key (snd cm) = Some k) xs)"


subsection \<open>The response\<close>

text \<open>Order-preserving removal of repeated warnings (the \<open>seen\<close> loop).\<close>

fun unique_warnings :: "string list \<Rightarrow> string list \<Rightarrow> string list" where
  "unique_warnings seen [] = []"
| "unique_warnings seen (w # ws) =
     (if w \<in> set seen then unique_warnings seen ws else w # unique_warnings (w # seen) ws)"

fun str_int :: "int \<Rightarrow> string" where
  "str_int i = (if i < 0 then CHR ''-'' # str_nat (nat (- i)) else str_nat (nat i))"

text \<open>\<open>str(cell).strip() if cell else f"Column_{i}"\<close>.\<close>

definition header_text :: "py_lib \<Rightarrow> nat \<Rightarrow> cell \<Rightarrow> string" where
  "header_text L i c =
     (if \<not> truthy c then ''Column_'' @ str_nat i
      else strip (case c of
                    CStr s \<Rightarrow> s
                  | CInt n \<Rightarrow> str_int n
                  | CFloat x \<Rightarrow> repr_float L x
                  | CBool b \<Rightarrow> str_bool b
                  | CNone \<Rightarrow> ''None''))"

record ParseResponse =
  status :: string
  header_row :: "nat option"
  parsed_data :: "ParsedCell list"
  unmapped_columns :: "UnmappedColumn list"
  warnings :: "string list"
  errors :: "string list"

text \<open>
  \<open>parse_file\<close> from the point where the sheet has been read into \<open>raw_data\<close>. The
  \<open>parameters\<close>, \<open>detected_assets\<close>, \<open>units\<close> and \<open>metadata\<close> fields of the response are
  not part of the model.
\<close>

definition parse_grid :: "py_lib \<Rightarrow> agent \<Rightarrow> (nat \<Rightarrow> oracle_outcome) \<Rightarrow> cell list list \<Rightarrow> ParseResponse" where
  "parse_grid L ag oracle raw_data =
     (if raw_data = [] then
        \<lparr> status = ''error'', header_row = None, parsed_data = [], unmapped_columns = [],
          warnings = [], errors = [''File is empty''] \<rparr>
      else
        (let header_row_idx = detect_header_row raw_data 5;
             headers = map (\<lambda>(i, c). header_text L i c) (enumerate 0 (raw_data ! header_row_idx));
             w0 = [''Detected header row at index '' @ str_nat header_row_idx]
                  @ (if header_row_idx > 0
                     then [''Rows 0-'' @ str_nat (header_row_idx - 1) @ '' appear to be title/metadata, skipped'']
                     else []);
             header_mappings = map_headers L ag oracle headers;
             unmapped_cols =
               map (\<lambda>(col_idx, hdr, mapping).
                      \<lparr> uc_col = col_idx, uc_header = hdr, uc_reason = reason mapping \<rparr>)
                 (filter (\<lambda>(col_idx, hdr, mapping). param_name mapping = None)
                    (enumerate 0 (zip headers header_mappings)));
             (cells, w1) = process_rows L headers header_mappings raw_data header_row_idx;
             w2 = duplicate_warnings header_mappings
         in \<lparr> status = ''success'', header_row = Some header_row_idx, parsed_data = cells,
              unmapped_columns = unmapped_cols,
              warnings = unique_warnings [] (w0 @ w1 @ w2), errors = [] \<rparr>))"

section \<open>Properties\<close>

subsection \<open>String similarity\<close>

lemma string_similarity_bounds: "0 \<le> string_similarity a b \<and> string_similarity a b \<le> 1"
proof -
  have le: "length (filter P xs) \<le> length ys" if "length xs \<le> length ys" for P and xs ys :: string
    using that length_filter_le [of P xs] by linarith
  show ?thesis
    unfolding string_similarity_def Let_def
    by (auto simp: divide_le_eq_1 le)
qed

text \<open>
  Claim C8. The similarity of a non-empty string with itself is 1, and the similarity of
  any two strings lies between 0 and 1.
\<close>

theorem string_similarity_reflexive_and_bounded:
  "(s \<noteq> [] \<longrightarrow> string_similarity s s = 1)
   \<and> 0 \<le> string_similarity a b \<and> string_similarity a b \<le> 1"
  using string_similarity_bounds [of a b] by (simp add: string_similarity_def)

theorem string_similarity_reflexive_and_bounded_witness:
  "''coal'' \<noteq> [] \<and> string_similarity ''coal'' ''coal'' = 1
   \<and> 0 \<le> string_similarity ''pressure'' ''power used''
   \<and> string_similarity ''pressure'' ''power used'' \<le> 1
   \<and> string_similarity ''pressure'' ''power used'' = 8 / 10"
proof -
  have "string_similarity ''pressure'' ''power used'' = 8 / 10" by code_simp
  then show ?thesis
    using string_similarity_reflexive_and_bounded [of "''coal''" "''pressure''" "''power used''"]
    by simp
qed

subsection \<open>Header-row detection\<close>

text \<open>
  Claim C2, as stated, fails: on the grid whose first row is the single cell
  \<open>"Report Title"\<close>, that row already has all of its cells header-like, and the
  detection returns 0, not 2.
\<close>

theorem detect_header_row_ragged_title_grid:
  "detect_header_row
     [[CStr ''Report Title''], [], [CStr ''Date'', CStr ''Coal Consumption'', CStr ''Power Generation'']] 5
   \<noteq> 2"
  by code_simp

text \<open>
  Claim C2, amended. On the grid as written the detection returns 0; on the same grid
  with every row padded with nulls to the width of the sheet (three columns) it
  returns 2.
\<close>

theorem detect_header_row_title_grid:
  "detect_header_row
     [[CStr ''Report Title''], [], [CStr ''Date'', CStr ''Coal Consumption'', CStr ''Power Generation'']] 5
   = 0
   \<and> detect_header_row
     [[CStr ''Report Title'', CNone, CNone], [CNone, CNone, CNone],
      [CStr ''Date'', CStr ''Coal Consumption'', CStr ''Power Generation'']] 5
   = 2"
  by code_simp

subsection \<open>Non-parameter classification\<close>


subsection \<open>Validation\<close>

text \<open>
  Claim C3, as stated, fails: for the identity \<open>efficiency_hours\<close> and the value 50 the
  efficiency rule's outcome (valid, with an advisory warning) is returned, while the
  last matching rule, the hour rule, rejects the value.
\<close>

theorem validate_value_last_rule_counterexample:
  "validate_value plain_lib (Some 50) (Some ''efficiency_hours'')
     = (True, Some ''Efficiency <float> - verify if this is decimal or percentage'')
   \<and> validate_value_last_wins plain_lib (Some 50) (Some ''efficiency_hours'')
     = (False, Some ''Operating hours <float> outside expected range (0-24)'')"
  by code_simp

text \<open>
  Claim C3, amended. The rules whose substring occurs in the parameter identity are
  consulted in the scan order efficiency, coal, power, hour, and the first of them whose
  outcome is not the clean pass decides the result; when none objects the result is
  \<open>(True, None)\<close>.
\<close>

theorem validate_value_first_objection_wins:
  "validate_value L (Some v) pn = first_objection (map (\<lambda>rule. rule v) (matching_rules L pn))"
  unfolding validate_value_def first_objection_def matching_rules_def validation_rules_def
    efficiency_rule_def coal_rule_def power_rule_def hour_rule_def
  by simp



subsection \<open>Value parsing\<close>

text \<open>
  Claim C9. A native boolean cell is parsed as a number, whatever the parameter
  identity: \<open>True\<close> gives \<open>(1.0, "numeric_direct")\<close> and \<open>False\<close> gives
  \<open>(0.0, "numeric_direct")\<close>. The tag \<open>unexpected_boolean\<close> only comes from a text cell
  whose trimmed, uppercased content is one of the boolean words.
\<close>

theorem native_boolean_is_numeric:
  "parse_value L (CBool True) pn = (Some 1, ''numeric_direct'')
   \<and> parse_value L (CBool False) pn = (Some 0, ''numeric_direct'')
   \<and> (snd (parse_value L c pn) = ''unexpected_boolean'' \<longrightarrow>
        (\<exists>s. c = CStr s
           \<and> upper (strip s) \<in> set [''YES'', ''TRUE'', ''Y'', ''1'', ''NO'', ''FALSE'', ''N'', ''0'']))"
proof -
  have num: "snd (parse_number v pn) \<noteq> ''unexpected_boolean''" for v
    by (simp add: parse_number_def)
  have ptext: "snd (parse_text L s pn) = ''unexpected_boolean'' \<Longrightarrow>
      upper (strip s) \<in> set [''YES'', ''TRUE'', ''Y'', ''1'', ''NO'', ''FALSE'', ''N'', ''0'']" for s
    unfolding parse_text_def Let_def
    by (auto split: if_splits option.splits)
  have "\<exists>s. c = CStr s
           \<and> upper (strip s) \<in> set [''YES'', ''TRUE'', ''Y'', ''1'', ''NO'', ''FALSE'', ''N'', ''0'']"
    if "snd (parse_value L c pn) = ''unexpected_boolean''"
    using that num ptext by (cases c) (auto split: if_splits)
  then show ?thesis by (simp add: parse_number_def)
qed

theorem native_boolean_is_numeric_witness:
  "parse_value plain_lib (CBool True) (Some ''coal_consumption'') = (Some 1, ''numeric_direct'')
   \<and> parse_value plain_lib (CBool False) (Some ''coal_consumption'') = (Some 0, ''numeric_direct'')
   \<and> snd (parse_value plain_lib (CStr ''yes'') (Some ''coal_consumption'')) = ''unexpected_boolean''
   \<and> (\<exists>s. CStr ''yes'' = CStr s
           \<and> upper (strip s) \<in> set [''YES'', ''TRUE'', ''Y'', ''1'', ''NO'', ''FALSE'', ''N'', ''0''])"
proof -
  have "snd (parse_value plain_lib (CStr ''yes'') (Some ''coal_consumption'')) = ''unexpected_boolean''"
    by code_simp
  then show ?thesis
    using native_boolean_is_numeric [of plain_lib "Some ''coal_consumption''" "CStr ''yes''"]
    by blast
qed

subsection \<open>Falling back from the oracle\<close>



lemma optional_str_field_accepts:
  "absent_null_or_string j \<Longrightarrow> \<exists>x. optional_str_field j = Inr x"
  by (cases j rule: absent_null_or_string.cases) simp_all

lemma str_field_accepts:
  "absent_or_string j \<Longrightarrow> \<exists>x. str_field j dflt = Inr x"
  by (cases j rule: absent_or_string.cases) simp_all


lemma build_mapping_accepts:
  assumes "well_formed_mapping (JObj kv)"
  shows "\<exists>m. build_mapping hdr kv = Inr m"
proof -
  from assms obtain pn an cf rs where
    "optional_str_field (map_of kv ''param_name'') = Inr pn"
    "optional_str_field (map_of kv ''asset_name'') = Inr an"
    "str_field (map_of kv ''confidence'') ''medium'' = Inr cf"
    "str_field (map_of kv ''reason'') ''LLM mapping'' = Inr rs"
    using optional_str_field_accepts str_field_accepts by (metis well_formed_mapping.simps(1))
  then show ?thesis by (simp add: build_mapping_def)
qed


lemma llm_try_succeeds:
  assumes "oracle_succeeded L outcome"
  shows "\<exists>m. llm_try L outcome hdr = Inr m"
proof (cases outcome)
  case OracleRaised
  with assms show ?thesis by simp
next
  case (OracleResponse t)
  show ?thesis
  proof (cases t)
    case None
    with assms OracleResponse show ?thesis by simp
  next
    case (Some body)
    with assms OracleResponse obtain j
      where j: "json_loads L (strip body) = Some j" "well_formed_mapping j"
      by (auto split: option.splits)
    then obtain kv where "j = JObj kv" by (cases j) auto
    with OracleResponse Some j build_mapping_accepts [of kv hdr] show ?thesis
      by (auto simp: llm_try_def)
  qed
qed




subsection \<open>Duplicate columns\<close>



lemma cols_of_Nil [simp]: "cols_of [] k = []"
  by (simp add: cols_of_def)

lemma cols_of_Cons [simp]:
  "cols_of ((c, m) # xs) k = (if mapping_key m = Some k then c # cols_of xs k else cols_of xs k)"
  by (simp add: cols_of_def)










subsection \<open>Skipped rows\<close>

lemma digit_chr_inj: "a < 10 \<Longrightarrow> b < 10 \<Longrightarrow> digit_chr a = digit_chr b \<Longrightarrow> a = b"
proof -
  have d: "distinct ''0123456789''" by simp
  show "a < 10 \<Longrightarrow> b < 10 \<Longrightarrow> digit_chr a = digit_chr b \<Longrightarrow> a = b"
    unfolding digit_chr_def using nth_eq_iff_index_eq [OF d, of a b] by simp
qed

lemma digit_chr_is_digit: "d < 10 \<Longrightarrow> digit_chr d \<in> set ''0123456789''"
  unfolding digit_chr_def by (rule nth_mem) simp

lemma str_nat_digits: "set (str_nat n) \<subseteq> set ''0123456789''"
proof (induction n rule: str_nat.induct)
  case (1 n)
  show ?case
  proof (cases "n < 10")
    case True
    then show ?thesis
      using digit_chr_is_digit [of n] by (subst str_nat.simps) simp
  next
    case False
    with 1 have "set (str_nat (n div 10)) \<subseteq> set ''0123456789''" by simp
    moreover have "digit_chr (n mod 10) \<in> set ''0123456789''"
      by (rule digit_chr_is_digit) simp
    ultimately show ?thesis
      using False by (subst str_nat.simps) simp
  qed
qed

lemma str_nat_length: "n < 10 \<longleftrightarrow> length (str_nat n) = 1"
proof (cases "n < 10")
  case True
  then show ?thesis by (subst str_nat.simps) simp
next
  case False
  have "str_nat (n div 10) \<noteq> []" by (subst str_nat.simps) simp
  then have "length (str_nat (n div 10)) \<noteq> 0" by simp
  with False show ?thesis by (subst str_nat.simps) simp
qed

lemma str_nat_inj: "str_nat m = str_nat n \<Longrightarrow> m = n"
proof (induction m arbitrary: n rule: str_nat.induct)
  case (1 m)
  show ?case
  proof (cases "m < 10")
    case True
    with "1.prems" have n: "n < 10" using str_nat_length [of m] str_nat_length [of n] by simp
    from True n "1.prems" have "digit_chr m = digit_chr n"
      by (simp add: str_nat.simps [of m] str_nat.simps [of n])
    with True n show ?thesis by (rule digit_chr_inj)
  next
    case False
    with "1.prems" have n: "\<not> n < 10" using str_nat_length [of m] str_nat_length [of n] by simp
    from False n "1.prems"
    have eq: "str_nat (m div 10) = str_nat (n div 10)" "digit_chr (m mod 10) = digit_chr (n mod 10)"
      by (simp_all add: str_nat.simps [of m] str_nat.simps [of n])
    from "1.IH" [OF False eq(1)] have "m div 10 = n div 10" .
    moreover have "m mod 10 = n mod 10"
      by (rule digit_chr_inj [OF _ _ eq(2)]) simp_all
    ultimately show ?thesis by (metis div_mult_mod_eq)
  qed
qed

lemma digits_then_separator:
  assumes "set xs \<subseteq> D" "set ys \<subseteq> D" "a \<notin> D" "b \<notin> D" "xs @ a # u = ys @ b # v"
  shows "xs = ys \<and> a = b"
  using assms
proof (induction xs arbitrary: ys)
  case Nil
  then show ?case by (cases ys) auto
next
  case (Cons x xs)
  then show ?case by (cases ys) auto
qed

lemma row_text_separator:
  assumes "''Row '' @ str_nat j @ a # u = ''Row '' @ str_nat i @ b # v"
    and "a \<notin> set ''0123456789''" and "b \<notin> set ''0123456789''"
  shows "j = i \<and> a = b"
proof -
  from assms(1) have "str_nat j @ a # u = str_nat i @ b # v" by simp
  from digits_then_separator [OF str_nat_digits str_nat_digits assms(2,3) this]
  show ?thesis using str_nat_inj by blast
qed

lemma row_skipped_warning_inj: "row_skipped_warning j = row_skipped_warning i \<Longrightarrow> j = i"
proof -
  assume "row_skipped_warning j = row_skipped_warning i"
  then have "''Row '' @ str_nat j @ CHR '' '' # ''is empty, skipped''
           = ''Row '' @ str_nat i @ CHR '' '' # ''is empty, skipped''"
    by (simp add: row_skipped_warning_def)
  from row_text_separator [OF this] show "j = i" by simp
qed



lemma validation_warning_not_skip: "validation_warning_text j c w \<noteq> row_skipped_warning i"
proof
  assume "validation_warning_text j c w = row_skipped_warning i"
  then have "''Row '' @ str_nat j @ CHR '','' # ('' Col '' @ str_nat c @ '': '' @ w)
           = ''Row '' @ str_nat i @ CHR '' '' # ''is empty, skipped''"
    by (simp add: row_skipped_warning_def validation_warning_text_def)
  from row_text_separator [OF this] show False by simp
qed

lemma parse_cell_fst_row: "pc_row (fst (parse_cell L j c mapping pn cv)) = j"
  by (simp add: parse_cell_def case_prod_beta Let_def)

lemma parse_cell_snd:
  "snd (parse_cell L j c mapping pn cv) = [] \<or>
   (\<exists>w. snd (parse_cell L j c mapping pn cv) = [validation_warning_text j c w])"
  by (auto simp add: parse_cell_def case_prod_beta Let_def split: option.splits)

lemma parse_cell_warnings:
  "row_skipped_warning i \<notin> set (snd (parse_cell L j c mapping pn cv))"
  using parse_cell_snd [of L j c mapping pn cv] validation_warning_not_skip [of j c _ i]
  by (metis empty_iff empty_set set_ConsD)


lemma process_cells_rows:
  "pc \<in> set (fst (process_cells L hs hm j c r)) \<Longrightarrow> pc_row pc = j"
proof (induction L hs hm j c r rule: process_cells.induct)
  case (1 L hs hm j c)
  then show ?case by simp
next
  case (2 L hs hm j c cv rest)
  show ?case
  proof (cases "length hs \<le> c")
    case True
    with "2.prems" show ?thesis by simp
  next
    case False
    show ?thesis
    proof (cases "param_name (hm ! c)")
      case None
      with False "2.prems" "2.IH"(1) show ?thesis by simp
    next
      case (Some pn)
      with False "2.prems"
      have "pc = fst (parse_cell L j c (hm ! c) pn cv)
            \<or> pc \<in> set (fst (process_cells L hs hm j (Suc c) rest))"
        by (simp add: case_prod_beta Let_def)
      then show ?thesis
      proof
        assume "pc = fst (parse_cell L j c (hm ! c) pn cv)"
        then show ?thesis by (simp add: parse_cell_fst_row)
      next
        assume "pc \<in> set (fst (process_cells L hs hm j (Suc c) rest))"
        with False Some "2.IH"(2) [of "hm ! c" pn "parse_cell L j c (hm ! c) pn cv"
              "fst (parse_cell L j c (hm ! c) pn cv)" "snd (parse_cell L j c (hm ! c) pn cv)"]
        show ?thesis by simp
      qed
    qed
  qed
qed

lemma process_cells_warnings:
  "row_skipped_warning i \<notin> set (snd (process_cells L hs hm j c r))"
proof (induction L hs hm j c r rule: process_cells.induct)
  case (1 L hs hm j c)
  then show ?case by simp
next
  case (2 L hs hm j c cv rest)
  show ?case
  proof (cases "length hs \<le> c")
    case True
    then show ?thesis by simp
  next
    case False
    show ?thesis
    proof (cases "param_name (hm ! c)")
      case None
      with False "2.IH"(1) show ?thesis by simp
    next
      case (Some pn)
      from False Some "2.IH"(2) [of "hm ! c" pn "parse_cell L j c (hm ! c) pn cv"
              "fst (parse_cell L j c (hm ! c) pn cv)" "snd (parse_cell L j c (hm ! c) pn cv)"]
      have "row_skipped_warning i \<notin> set (snd (process_cells L hs hm j (Suc c) rest))" by simp
      with False Some parse_cell_warnings [of i L j c "hm ! c" pn cv] show ?thesis
        by (simp add: case_prod_beta Let_def)
    qed
  qed
qed


lemma list_ex_truthy: "list_ex truthy r \<longleftrightarrow> \<not> (\<forall>c \<in> set r. \<not> truthy c)"
  by (simp add: list_ex_iff)

lemma process_row_skipped:
  "\<forall>c \<in> set r. \<not> truthy c \<Longrightarrow> process_row L hs hm j r = ([], [row_skipped_warning j])"
  by (simp add: process_row_def list_ex_iff)

lemma process_row_not_skipped:
  "\<not> (\<forall>c \<in> set r. \<not> truthy c) \<Longrightarrow> row_skipped_warning i \<notin> set (snd (process_row L hs hm j r))"
  using process_cells_warnings [of i L hs hm j 0 r] by (simp add: process_row_def list_ex_iff)

lemma process_row_other:
  "j \<noteq> i \<Longrightarrow> row_skipped_warning i \<notin> set (snd (process_row L hs hm j r))"
  using process_cells_warnings [of i L hs hm j 0 r] row_skipped_warning_inj [of i j]
  by (auto simp: process_row_def)

lemma process_row_rows: "pc \<in> set (fst (process_row L hs hm j r)) \<Longrightarrow> pc_row pc = j"
  using process_cells_rows [of pc L hs hm j 0 r] by (simp add: process_row_def split: if_splits)

lemma process_row_count:
  "count_list (snd (process_row L hs hm i r)) (row_skipped_warning i)
     = (if \<forall>c \<in> set r. \<not> truthy c then 1 else 0)"
  using process_row_skipped [of r L hs hm i] process_row_not_skipped [of r i L hs hm i]
  by (auto simp: count_list_0_iff)

lemma count_list_concat_other:
  "(\<And>j. j \<in> set js \<Longrightarrow> x \<notin> set (f j)) \<Longrightarrow> count_list (concat (map f js)) x = 0"
  by (simp add: count_list_0_iff)

text \<open>
  Claim C10. For a data row \<open>i\<close> below the header row, the warning that row \<open>i\<close> is
  empty and skipped is recorded once when every cell of the row is falsy (null, zero,
  empty text or \<open>False\<close>) and not at all otherwise; and a row of falsy cells contributes
  no parsed cell.
\<close>

theorem falsy_rows_are_skipped:
  assumes "header_row_idx < i" and "i < length raw_data"
  shows "count_list (snd (process_rows L hs hm raw_data header_row_idx)) (row_skipped_warning i)
           = (if \<forall>c \<in> set (raw_data ! i). \<not> truthy c then 1 else 0)
       \<and> ((\<forall>c \<in> set (raw_data ! i). \<not> truthy c) \<longrightarrow>
            filter (\<lambda>pc. pc_row pc = i) (fst (process_rows L hs hm raw_data header_row_idx)) = [])"
proof -
  define f where "f = (\<lambda>j. process_row L hs hm j (raw_data ! j))"
  have split: "[header_row_idx + 1 ..< length raw_data]
      = [header_row_idx + 1 ..< i] @ i # [Suc i ..< length raw_data]"
    using assms upt_add_eq_append [of "header_row_idx + 1" i "length raw_data - i"]
    by (simp add: upt_conv_Cons)
  have before: "count_list (concat (map (\<lambda>j. snd (f j)) [header_row_idx + 1 ..< i])) (row_skipped_warning i) = 0"
    by (rule count_list_concat_other) (simp add: f_def process_row_other)
  have after: "count_list (concat (map (\<lambda>j. snd (f j)) [Suc i ..< length raw_data])) (row_skipped_warning i) = 0"
    by (rule count_list_concat_other) (simp add: f_def process_row_other)
  have ws: "snd (process_rows L hs hm raw_data header_row_idx)
      = concat (map (\<lambda>j. snd (f j)) [header_row_idx + 1 ..< length raw_data])"
    by (simp add: process_rows_def f_def Let_def comp_def)
  have cs: "fst (process_rows L hs hm raw_data header_row_idx)
      = concat (map (\<lambda>j. fst (f j)) [header_row_idx + 1 ..< length raw_data])"
    by (simp add: process_rows_def f_def Let_def comp_def)
  have count: "count_list (snd (process_rows L hs hm raw_data header_row_idx)) (row_skipped_warning i)
           = (if \<forall>c \<in> set (raw_data ! i). \<not> truthy c then 1 else 0)"
    unfolding ws split using before after process_row_count [of L hs hm i "raw_data ! i"]
    by (simp add: f_def)
  have cells: "filter (\<lambda>pc. pc_row pc = i) (fst (process_rows L hs hm raw_data header_row_idx)) = []"
    if falsy: "\<forall>c \<in> set (raw_data ! i). \<not> truthy c"
  proof -
    have "pc_row pc \<noteq> i" if "pc \<in> set (fst (process_rows L hs hm raw_data header_row_idx))" for pc
    proof -
      from that obtain j where j: "pc \<in> set (fst (f j))"
        unfolding cs by auto
      then have "pc_row pc = j" by (simp add: f_def process_row_rows)
      moreover have "j \<noteq> i"
        using j process_row_skipped [OF falsy, of L hs hm i] by (auto simp: f_def)
      ultimately show ?thesis by simp
    qed
    then show ?thesis by (simp add: filter_empty_conv)
  qed
  from count cells show ?thesis by blast
qed


theorem falsy_rows_are_skipped_witness:
  "(0::nat) < 1
   \<and> (1::nat) < length [[CStr ''Coal''], [CInt 0, CStr [], CBool False, CFloat 0, CNone], [CInt 7]]
   \<and> \<not> list_ex truthy [CInt 0, CStr [], CBool False, CFloat 0, CNone]
   \<and> count_list
        (snd (process_rows plain_lib [''Coal'']
               [\<lparr>header = ''Coal'', param_name = Some ''coal_consumption'', asset_name = None,
                  confidence = ''high'', reason = ''r''\<rparr>]
               [[CStr ''Coal''], [CInt 0, CStr [], CBool False, CFloat 0, CNone], [CInt 7]] 0))
        (row_skipped_warning 1) = 1
   \<and> filter (\<lambda>pc. pc_row pc = 1)
        (fst (process_rows plain_lib [''Coal'']
               [\<lparr>header = ''Coal'', param_name = Some ''coal_consumption'', asset_name = None,
                  confidence = ''high'', reason = ''r''\<rparr>]
               [[CStr ''Coal''], [CInt 0, CStr [], CBool False, CFloat 0, CNone], [CInt 7]] 0)) = []"
proof -
  have a: "(0::nat) < 1" by simp
  have b: "(1::nat) < length [[CStr ''Coal''], [CInt 0, CStr [], CBool False, CFloat 0, CNone], [CInt 7]]"
    by simp
  have c: "\<forall>c \<in> set [CInt 0, CStr [], CBool False, CFloat 0, CNone]. \<not> truthy c" by simp
  show ?thesis
    using a b c falsy_rows_are_skipped [OF a b, of plain_lib "[''Coal'']"
        "[\<lparr>header = ''Coal'', param_name = Some ''coal_consumption'', asset_name = None,
            confidence = ''high'', reason = ''r''\<rparr>]"]
    by simp
qed

subsection \<open>Confidence of a cell\<close>

text \<open>
  Claim C1 at a sheet with the rows \<open>["Flow", "Date"]\<close> and \<open>[None, "2024-01-01"]\<close>,
  parsed without an API key. The fuzzy matcher maps the column \<open>Flow\<close> with confidence
  \<open>low\<close>; its null cell is given the final confidence \<open>medium\<close>, which is higher: the
  assignment for null and unparseable cells sets \<open>medium\<close> whatever the current level is.
\<close>

theorem null_cell_raises_low_confidence:
  "map (\<lambda>m. (param_name m, confidence m))
      (map_headers plain_lib default_agent (\<lambda>i. OracleRaised) [''Flow'', ''Date''])
     = [(Some ''plant_load_factor'', ''low''), (None, ''low'')]
   \<and> map (\<lambda>pc. (pc_row pc, pc_col pc, pc_raw_value pc, pc_confidence pc))
      (parsed_data (parse_grid plain_lib default_agent (\<lambda>i. OracleRaised)
         [[CStr ''Flow'', CStr ''Date''], [CNone, CStr ''2024-01-01'']]))
     = [(1, 0, CNone, ''medium'')]
   \<and> final_confidence ''low'' None ''null_value'' True = ''medium''
   \<and> confidence_rank ''low'' < confidence_rank ''medium''"
  by code_simp

end
